theory Spec2Isabelle
  imports Complex_Main "HOL-Library.AList"
begin

section \<open>Python values and exceptions\<close>

text \<open>
  The exceptions that the modelled code can raise. A function of the source that can raise
  returns a sum: \<open>Inl\<close> carries the exception, \<open>Inr\<close> the value returned.
\<close>

datatype py_error =
    TypeError
  | KeyError
  | IndexError
  | ValueError
  | ZeroDivisionError


section \<open>Python string operations\<close>

text \<open>
  A Python \<open>str\<close> is modelled as a list of characters (one \<open>char\<close> per code point;
  the code only ever inspects ASCII characters).  \<open>s.split(c)\<close> for a separator of one
  character:
\<close>

fun py_split :: "char \<Rightarrow> string \<Rightarrow> string list" where
  "py_split c [] = [[]]"
| "py_split c (x # xs) =
     (if x = c then [] # py_split c xs
      else (case py_split c xs of [] \<Rightarrow> [[x]] | y # ys \<Rightarrow> (x # y) # ys))"

definition py_isspace :: "char \<Rightarrow> bool" where
  "py_isspace c \<longleftrightarrow> c \<in> set [CHR 0x09, CHR 0x0A, CHR 0x0B, CHR 0x0C, CHR 0x0D, CHR '' '']"

definition py_isdigit :: "char \<Rightarrow> bool" where
  "py_isdigit c \<longleftrightarrow> c \<in> set ''0123456789''"

definition digit_value :: "char \<Rightarrow> nat" where
  "digit_value c = of_char c - 48"

definition py_strip :: "string \<Rightarrow> string" where
  "py_strip s = rev (dropWhile py_isspace (rev (dropWhile py_isspace s)))"

text \<open>
  \<open>int(s)\<close> on a string, base ten: white space around, one optional sign, then digits,
  where single underscores may stand between digits.  \<open>None\<close> stands for the
  \<open>ValueError\<close> that \<open>int\<close> raises on anything else.
\<close>

fun int_digits :: "nat \<Rightarrow> string \<Rightarrow> nat option" where
  "int_digits acc [] = Some acc"
| "int_digits acc (c # cs) =
     (if py_isdigit c then int_digits (10 * acc + digit_value c) cs
      else if c = CHR ''_'' then
        (case cs of
           [] \<Rightarrow> None
         | d # ds \<Rightarrow> if py_isdigit d then int_digits (10 * acc + digit_value d) ds else None)
      else None)"

definition int_unsigned :: "string \<Rightarrow> nat option" where
  "int_unsigned s =
     (case s of
        [] \<Rightarrow> None
      | c # cs \<Rightarrow> if py_isdigit c then int_digits (digit_value c) cs else None)"

definition py_int :: "string \<Rightarrow> int option" where
  "py_int s =
     (case py_strip s of
        [] \<Rightarrow> None
      | c # cs \<Rightarrow>
          if c = CHR ''-'' then map_option (\<lambda>n. - int n) (int_unsigned cs)
          else if c = CHR ''+'' then map_option int (int_unsigned cs)
          else map_option int (int_unsigned (c # cs)))"

section \<open>The scheduler: \<open>Service.compute_next_event\<close>\<close>


text \<open>
  The fields of \<open>Service\<close> that the scheduler reads. \<open>Service.__init__\<close> takes
  the host name, the port, the timeout and the database, and sets the three intervals to
  constants; the database handle plays no part in the timing and is left out.
\<close>

record Service =
  hostname :: string
  port :: int
  timeout_secs :: int
  pollfreq_secs :: int
  pollfreq_offset :: int
  arcint_secs :: int

definition Service_init :: "string \<Rightarrow> int \<Rightarrow> int \<Rightarrow> Service" where
  "Service_init h p t =
     \<lparr> hostname = h, port = p, timeout_secs = t,
       pollfreq_secs = 5, pollfreq_offset = 5, arcint_secs = 60 \<rparr>"





section \<open>Start-up: the checks of \<open>start\<close>\<close>

text \<open>
  How \<open>start\<close> ends: \<open>parser.error(msg)\<close> prints the message and exits with status 2;
  the test and dump modes run and call \<open>sys.exit(0)\<close>; an uncaught exception ends the
  process; otherwise the \<open>Service\<close> is constructed and \<open>do_loop\<close> is entered.
\<close>

datatype start_outcome =
    ParserError string
  | RanTests
  | DumpedDatabase
  | Uncaught py_error
  | EnteredLoop Service

text \<open>\<open>not x\<close> for an optional string: \<open>None\<close> and the empty string are false.\<close>

definition py_not :: "string option \<Rightarrow> bool" where
  "py_not x \<longleftrightarrow> x = None \<or> x = Some []"

text \<open>
  \<open>start\<close> from the point where the options and the configuration have been read:
  \<open>test\<close> and \<open>dump\<close> are the command-line flags, the other arguments are the
  configuration values under the names of the source's local variables (primed where the
  name is also a field of \<open>Service\<close>).  The checks stand
  in the order of the source; \<open>arcint_secs % pollfreq_secs\<close> raises
  \<open>ZeroDivisionError\<close> on a zero divisor, and Python's \<open>%\<close> on integers is the
  floored remainder, as \<open>mod\<close> on \<open>int\<close> is.  Writing the pid file, opening the
  database and starting the query server (which come after the checks) are not modelled.
\<close>

definition start ::
  "bool \<Rightarrow> bool \<Rightarrow> string option \<Rightarrow> int \<Rightarrow> int \<Rightarrow> int \<Rightarrow> int \<Rightarrow> string option
     \<Rightarrow> start_outcome" where
  "start test dump hostname' port' timeout_secs' pollfreq_secs' arcint_secs' db_file =
     (if test \<and> dump then ParserError ''At most one of --test and --dump can be specified.''
      else if test then
        (if py_not hostname' then ParserError ''hostname must be specified in the config file''
         else RanTests)
      else if dump then
        (if py_not db_file then ParserError ''database-file must be specified in the config file''
         else DumpedDatabase)
      else if py_not hostname' then ParserError ''hostname must be specified in the config file''
      else if py_not db_file then ParserError ''database-file must be specified in the config file''
      else if pollfreq_secs' = 0 then Uncaught ZeroDivisionError
      else if arcint_secs' mod pollfreq_secs' \<noteq> 0 then
        ParserError ''archive-interval-secs must be a multiple of poll-frequency-secs''
      else
        (case hostname' of
           Some h \<Rightarrow> EnteredLoop (Service_init h port' timeout_secs')
         | None \<Rightarrow> Uncaught TypeError))"

section \<open>The query server: \<open>Handler.parse_args\<close> and \<open>Handler.parse_requestline\<close>\<close>

datatype RequestType =
    ERROR
  | GET_VERSION
  | GET_EARLIEST_TIMESTAMP
  | FETCH_CURRENT_RECORD
  | FETCH_ARCHIVE_RECORDS

record Request =
  request_type :: RequestType
  since_ts :: "int option"
  max_ts :: "int option"
  limit :: "int option"
  error :: "string option"
  request :: string

text \<open>
  \<open>parse_args\<close>: the argument string is split at commas; an argument with an \<open>=\<close> is
  split at \<open>=\<close>, and when its first part is not empty the first part is the key and the
  second part the value.  The dictionary is a map; a later argument overwrites an earlier
  one with the same key.  (\<open>key_value[1]\<close> exists, since the argument holds an \<open>=\<close>.)
\<close>

definition parse_arg :: "(string \<rightharpoonup> string) \<Rightarrow> string \<Rightarrow> (string \<rightharpoonup> string)" where
  "parse_arg args_dict arg =
     (if CHR ''='' \<in> set arg then
        (let key_value = py_split CHR ''='' arg in
         if key_value ! 0 \<noteq> [] then args_dict(key_value ! 0 \<mapsto> key_value ! 1) else args_dict)
      else args_dict)"

definition parse_args :: "string \<Rightarrow> (string \<rightharpoonup> string)" where
  "parse_args args_in = foldl parse_arg Map.empty (py_split CHR '','' args_in)"

text \<open>
  One of the three \<open>try: x = int(args_dict[name]) except Exception: ...\<close> blocks: on
  success the value is set; on failure the request becomes an \<open>ERROR\<close> with the message
  for that argument.  The state is the request type, the parsed value and the error.
\<close>

definition int_argument ::
  "string \<Rightarrow> string \<Rightarrow> RequestType \<times> string option \<Rightarrow> (RequestType \<times> string option) \<times> int option" where
  "int_argument name v st =
     (case py_int v of
        Some n \<Rightarrow> (st, Some n)
      | None \<Rightarrow>
          ((ERROR, Some (''The '' @ name @ '' argument must be an integer, found: '' @
              [CHR 0x27] @ v @ [CHR 0x27] @ ''.'')), None))"

text \<open>
  \<open>parse_requestline\<close>.  \<open>requestline.split(' ')[1]\<close> raises \<open>IndexError\<close> when the
  line holds no space.  The test \<open>cmd != RequestType.ERROR\<close> compares a string with an
  enumeration member and is always true, so \<open>parse_args\<close> always runs.  The \<open>max_ts\<close>
  and \<open>limit\<close> arguments are read only inside the branch where \<open>since_ts\<close> is present.
\<close>

definition parse_requestline :: "string \<Rightarrow> py_error + Request" where
  "parse_requestline requestline =
     (case py_split CHR '' '' requestline of
        _ # req # _ \<Rightarrow>
          let cmd = (if CHR ''?'' \<in> set req then py_split CHR ''?'' req ! 0 else req);
              args = (if CHR ''?'' \<in> set req then py_split CHR ''?'' req ! 1 else []);
              st0 =
                (if cmd = ''/get-version'' then (GET_VERSION, None)
                 else if cmd = ''/get-earliest-timestamp'' then (GET_EARLIEST_TIMESTAMP, None)
                 else if cmd = ''/v1/current_conditions'' then (FETCH_CURRENT_RECORD, None)
                 else if cmd = ''/fetch-archive-records'' then (FETCH_ARCHIVE_RECORDS, None)
                 else if cmd = ''/'' then (ERROR, Some ''A command must be specified.'')
                 else (ERROR, Some (''Unknown command: '' @ cmd @ ''.'')));
              args_dict = parse_args args
          in
            if fst st0 = FETCH_ARCHIVE_RECORDS then
              (case args_dict ''since_ts'' of
                 Some sv \<Rightarrow>
                   let (st1, since) = int_argument ''since_ts'' sv st0;
                       (st2, maxv) =
                         (case args_dict ''max_ts'' of
                            Some mv \<Rightarrow> int_argument ''max_ts'' mv st1
                          | None \<Rightarrow> (st1, None));
                       (st3, lim) =
                         (case args_dict ''limit'' of
                            Some lv \<Rightarrow> int_argument ''limit'' lv st2
                          | None \<Rightarrow> (st2, None))
                   in Inr \<lparr> request_type = fst st3, since_ts = since, max_ts = maxv,
                            limit = lim, error = snd st3, request = req \<rparr>
               | None \<Rightarrow>
                   Inr \<lparr> request_type = ERROR, since_ts = None, max_ts = None, limit = None,
                         error = Some ''fetch-archive-records requires since_ts argument'',
                         request = req \<rparr>)
            else
              Inr \<lparr> request_type = fst st0, since_ts = None, max_ts = None, limit = None,
                    error = snd st0, request = req \<rparr>
      | _ \<Rightarrow> Inl IndexError)"

text \<open>
  A query string whose parameters \<open>key=value\<close> are joined with \<open>&\<close>, and the
  characters that such keys and values are taken not to contain.
\<close>

fun amp_joined :: "(string \<times> string) list \<Rightarrow> string" where
  "amp_joined [] = []"
| "amp_joined [(k, v)] = k @ ''='' @ v"
| "amp_joined ((k, v) # p # ps) = k @ ''='' @ v @ ''&'' @ amp_joined (p # ps)"

definition plain_word :: "string \<Rightarrow> bool" where
  "plain_word w \<longleftrightarrow> set w \<inter> set '',=?& '' = {}"

section \<open>Decoded JSON values and Python's operations on them\<close>

text \<open>
  What \<open>r.json()\<close> returns: \<open>None\<close>, a \<open>bool\<close>, an \<open>int\<close>, a \<open>float\<close>, a
  \<open>str\<close>, a \<open>list\<close> or a \<open>dict\<close> with string keys.  A dictionary is an association
  list read with \<open>map_of\<close> and written with \<open>AList.update\<close>.
\<close>

datatype json =
    JNull
  | JBool bool
  | JInt int
  | JFloat rat
  | JStr string
  | JList "json list"
  | JDict "(string \<times> json) list"

text \<open>Sequencing of steps that may raise: the first exception ends the sequence.\<close>

definition and_then :: "py_error + 'a \<Rightarrow> ('a \<Rightarrow> py_error + 'b) \<Rightarrow> py_error + 'b" where
  "and_then m f = (case m of Inl e \<Rightarrow> Inl e | Inr x \<Rightarrow> f x)"

text \<open>\<open>x[key]\<close> for a string key, \<open>x[0]\<close>, \<open>key in x\<close> and \<open>x[key] = v\<close>.\<close>

definition py_getitem :: "json \<Rightarrow> string \<Rightarrow> py_error + json" where
  "py_getitem x key =
     (case x of
        JDict d \<Rightarrow> (case map_of d key of Some v \<Rightarrow> Inr v | None \<Rightarrow> Inl KeyError)
      | _ \<Rightarrow> Inl TypeError)"

definition py_getitem0 :: "json \<Rightarrow> py_error + json" where
  "py_getitem0 x =
     (case x of
        JList [] \<Rightarrow> Inl IndexError
      | JList (v # _) \<Rightarrow> Inr v
      | JStr [] \<Rightarrow> Inl IndexError
      | JStr (c # _) \<Rightarrow> Inr (JStr [c])
      | JDict _ \<Rightarrow> Inl KeyError
      | _ \<Rightarrow> Inl TypeError)"

text \<open>\<open>key in s\<close> for two strings: \<open>key\<close> occurs in \<open>s\<close> as a substring.\<close>

fun is_infix :: "string \<Rightarrow> string \<Rightarrow> bool" where
  "is_infix key [] = (key = [])"
| "is_infix key (c # cs) = (take (length key) (c # cs) = key \<or> is_infix key cs)"

definition py_contains :: "string \<Rightarrow> json \<Rightarrow> py_error + bool" where
  "py_contains key x =
     (case x of
        JDict d \<Rightarrow> Inr (key \<in> fst ` set d)
      | JList vs \<Rightarrow> Inr (JStr key \<in> set vs)
      | JStr s \<Rightarrow> Inr (is_infix key s)
      | _ \<Rightarrow> Inl TypeError)"

definition py_setitem :: "json \<Rightarrow> string \<Rightarrow> json \<Rightarrow> py_error + json" where
  "py_setitem x key v =
     (case x of
        JDict d \<Rightarrow> Inr (JDict (AList.update key v d))
      | _ \<Rightarrow> Inl TypeError)"

text \<open>
  The number that a JSON value stands for in arithmetic and in \<open>%d\<close>: an \<open>int\<close>, a
  \<open>float\<close>, or a \<open>bool\<close> (\<open>True\<close> is 1).  Anything else raises \<open>TypeError\<close> there.
\<close>

definition py_number :: "json \<Rightarrow> rat option" where
  "py_number x =
     (case x of
        JInt n \<Rightarrow> Some (of_int n)
      | JFloat r \<Rightarrow> Some r
      | JBool b \<Rightarrow> Some (if b then 1 else 0)
      | _ \<Rightarrow> None)"

text \<open>\<open>x == n\<close> for an integer literal \<open>n\<close>: numbers compare by value.\<close>

definition py_eq_int :: "json \<Rightarrow> int \<Rightarrow> bool" where
  "py_eq_int x n \<longleftrightarrow> py_number x = Some (of_int n)"

text \<open>\<open>isinstance(x, t)\<close> for the five types that \<open>is_sane\<close> asks for.\<close>

datatype py_type = T_dict | T_str | T_int | T_list | T_float

definition isinstance :: "json \<Rightarrow> py_type \<Rightarrow> bool" where
  "isinstance x t =
     (case t of
        T_dict \<Rightarrow> (case x of JDict _ \<Rightarrow> True | _ \<Rightarrow> False)
      | T_str \<Rightarrow> (case x of JStr _ \<Rightarrow> True | _ \<Rightarrow> False)
      | T_int \<Rightarrow> (case x of JInt _ \<Rightarrow> True | JBool _ \<Rightarrow> True | _ \<Rightarrow> False)
      | T_list \<Rightarrow> (case x of JList _ \<Rightarrow> True | _ \<Rightarrow> False)
      | T_float \<Rightarrow> (case x of JFloat _ \<Rightarrow> True | _ \<Rightarrow> False))"

text \<open>
  The object \<open>j['data']['conditions'][0]\<close>, and an assignment
  \<open>j['data']['conditions'][0][key] = v\<close>, which changes the payload in place: the model
  returns the changed payload.
\<close>

definition conditions0 :: "json \<Rightarrow> py_error + json" where
  "conditions0 j =
     and_then (py_getitem j ''data'') (\<lambda>d.
     and_then (py_getitem d ''conditions'') (\<lambda>cs. py_getitem0 cs))"

definition set_conditions0 :: "json \<Rightarrow> string \<Rightarrow> json \<Rightarrow> py_error + json" where
  "set_conditions0 j key v =
     and_then (py_getitem j ''data'') (\<lambda>d.
     and_then (py_getitem d ''conditions'') (\<lambda>cs.
     and_then (py_getitem0 cs) (\<lambda>c.
     and_then (py_setitem c key v) (\<lambda>c'.
       (case cs of
          JList (_ # rest) \<Rightarrow>
            and_then (py_setitem d ''conditions'' (JList (c' # rest))) (\<lambda>d'.
              py_setitem j ''data'' d')
        | _ \<Rightarrow> Inl TypeError)))))"

section \<open>The \<open>Reading\<close> data class\<close>

text \<open>
  The fields of \<open>Reading\<close> with their declared types; every field can be \<open>None\<close>.
  A \<open>float\<close> field holds a rational (the exact value of the float), and an \<open>int\<close>
  given where a \<open>float\<close> is declared stands for the same number (\<open>100 == 100.0\<close>).
\<close>

record Reading =
  did :: "string option"
  name :: "string option"
  ts :: "int option"
  lsid :: "int option"
  data_structure_type :: "int option"
  temp :: "rat option"
  hum :: "rat option"
  dew_point :: "rat option"
  wet_bulb :: "rat option"
  heat_index :: "rat option"
  pm_1_last :: "int option"
  pm_2p5_last :: "int option"
  pm_10_last :: "int option"
  pm_1 :: "rat option"
  pm_2p5 :: "rat option"
  pm_2p5_last_1_hour :: "rat option"
  pm_2p5_last_3_hours :: "rat option"
  pm_2p5_last_24_hours :: "rat option"
  pm_2p5_nowcast :: "rat option"
  pm_10 :: "rat option"
  pm_10_last_1_hour :: "rat option"
  pm_10_last_3_hours :: "rat option"
  pm_10_last_24_hours :: "rat option"
  pm_10_nowcast :: "rat option"
  last_report_time :: "int option"
  pct_pm_data_last_1_hour :: "int option"
  pct_pm_data_last_3_hours :: "int option"
  pct_pm_data_nowcast :: "int option"
  pct_pm_data_last_24_hours :: "int option"

text \<open>
  Python does not enforce the declared types.  A \<open>Reading\<close> object is built from a
  decoded payload or from a database row, and a field may then hold a value that is not of
  its declared type (a number where a \<open>str\<close> is declared, say).  Such an object is
  \<open>IllTyped\<close>; it is unequal to every object whose fields are of their declared types.
\<close>

datatype reading_obj = WellTyped Reading | IllTyped

section \<open>The sensor pipeline: \<open>Service.collect_data\<close> and its helpers\<close>

subsection \<open>\<open>Service.is_type\<close> and \<open>Service.is_sane\<close>\<close>

text \<open>
  \<open>is_type(j, t, name, none_ok)\<close> looks \<open>j[name]\<close> up inside a \<open>try\<close>; every
  exception of the lookup gives \<open>False\<close>.
\<close>

definition is_type :: "json \<Rightarrow> py_type \<Rightarrow> string \<Rightarrow> bool \<Rightarrow> bool" where
  "is_type j t name' none_ok =
     (case py_getitem j name' of
        Inl _ \<Rightarrow> False
      | Inr x \<Rightarrow> if x = JNull \<and> none_ok then True else isinstance x t)"

text \<open>
  The diagnostic that \<open>is_sane\<close> returns with its verdict: the empty string on success,
  \<open>'Error: %s' % j['error']\<close>, \<open>'Missing or malformed "%s" field'\<close> for a field,
  the message for an empty \<open>conditions\<close> list, and the message for a structure type
  other than 6.
\<close>

datatype sane_msg =
    Msg_empty
  | Msg_error json
  | Msg_field string
  | Msg_no_conditions
  | Msg_structure_type

text \<open>The three loops over field names of \<open>is_sane\<close>, in the order of the source.\<close>

definition int_or_none_names :: "string list" where
  "int_or_none_names =
     [''pm_1_last'', ''pm_2p5_last'', ''pm_10_last'', ''last_report_time'',
      ''pct_pm_data_last_1_hour'', ''pct_pm_data_last_3_hours'',
      ''pct_pm_data_nowcast'', ''pct_pm_data_last_24_hours'']"

definition float_names :: "string list" where
  "float_names = [''temp'', ''hum'', ''dew_point'', ''wet_bulb'', ''heat_index'']"

definition float_or_none_names :: "string list" where
  "float_or_none_names =
     [''pm_1'', ''pm_2p5'', ''pm_2p5_last_1_hour'',
      ''pm_2p5_last_3_hours'', ''pm_2p5_last_24_hours'', ''pm_2p5_nowcast'',
      ''pm_10'', ''pm_10_last_1_hour'', ''pm_10_last_3_hours'',
      ''pm_10_last_24_hours'', ''pm_10_nowcast'']"

text \<open>
  The checks on \<open>j['data']['conditions'][0]\<close> that follow the check of the structure
  type: each loop returns at the first name that fails.
\<close>

definition conditions_sane :: "json \<Rightarrow> bool \<times> sane_msg" where
  "conditions_sane c =
     (case find (\<lambda>n. \<not> is_type c T_int n True) int_or_none_names of
        Some n \<Rightarrow> (False, Msg_field n)
      | None \<Rightarrow>
          if \<not> is_type c T_int ''lsid'' True then (False, Msg_field ''lsid'')
          else
            (case find (\<lambda>n. \<not> is_type c T_float n False) float_names of
               Some n \<Rightarrow> (False, Msg_field n)
             | None \<Rightarrow>
                 (case find (\<lambda>n. \<not> is_type c T_float n True) float_or_none_names of
                    Some n \<Rightarrow> (False, Msg_field n)
                  | None \<Rightarrow> (True, Msg_empty))))"

text \<open>
  \<open>is_sane\<close>.  Its first line reads \<open>j['error']\<close> outside any \<open>try\<close>, so a payload
  without that key raises \<open>KeyError\<close> here.  The later subscripts are reached only
  after the \<open>is_type\<close> checks that make them safe; they are written with the same
  operations all the same.
\<close>

definition is_sane :: "json \<Rightarrow> py_error + (bool \<times> sane_msg)" where
  "is_sane j =
     and_then (py_getitem j ''error'') (\<lambda>e.
       if e \<noteq> JNull then Inr (False, Msg_error e)
       else if \<not> is_type j T_dict ''data'' False then Inr (False, Msg_field ''data'')
       else
         and_then (py_getitem j ''data'') (\<lambda>d.
           if \<not> is_type d T_str ''name'' False then Inr (False, Msg_field ''name'')
           else if \<not> is_type d T_int ''ts'' False then Inr (False, Msg_field ''ts'')
           else if \<not> is_type d T_list ''conditions'' False then
             Inr (False, Msg_field ''conditions'')
           else
             and_then (py_getitem d ''conditions'') (\<lambda>cs.
               if cs = JList [] then Inr (False, Msg_no_conditions)
               else
                 and_then (py_getitem0 cs) (\<lambda>c.
                   if \<not> is_type c T_int ''data_structure_type'' False then
                     Inr (False, Msg_field ''data_structure_type'')
                   else
                     and_then (py_getitem c ''data_structure_type'') (\<lambda>t.
                       if \<not> py_eq_int t 6 then Inr (False, Msg_structure_type)
                       else Inr (conditions_sane c))))))"

subsection \<open>\<open>Service.convert_data_structure_type_5_to_6\<close>\<close>

text \<open>
  The body is a \<open>try\<close> block of eleven assignments to
  \<open>j['data']['conditions'][0]\<close>; an exception ends the block, is logged, and leaves the
  assignments made so far in place.  An assignment \<open>c[new] = c[old]\<close> evaluates its right
  side first.
\<close>

definition copy_field :: "string \<Rightarrow> string \<Rightarrow> json \<Rightarrow> py_error + json" where
  "copy_field new old j =
     and_then (conditions0 j) (\<lambda>c.
     and_then (py_getitem c old) (\<lambda>v. set_conditions0 j new v))"

definition clear_field :: "string \<Rightarrow> json \<Rightarrow> py_error + json" where
  "clear_field old j = set_conditions0 j old JNull"

fun run_steps :: "(json \<Rightarrow> py_error + json) list \<Rightarrow> json \<Rightarrow> json \<times> py_error option" where
  "run_steps [] j = (j, None)"
| "run_steps (f # fs) j =
     (case f j of
        Inl e \<Rightarrow> (j, Some e)
      | Inr j' \<Rightarrow> run_steps fs j')"

definition convert_data_structure_type_5_to_6 :: "json \<Rightarrow> json \<times> py_error option" where
  "convert_data_structure_type_5_to_6 j =
     run_steps
       [copy_field ''pm_10'' ''pm_10p0'', clear_field ''pm_10p0'',
        copy_field ''pm_10_last_1_hour'' ''pm_10p0_last_1_hour'',
        clear_field ''pm_10p0_last_1_hour'',
        copy_field ''pm_10_last_3_hours'' ''pm_10p0_last_3_hours'',
        clear_field ''pm_10p0_last_3_hours'',
        copy_field ''pm_10_last_24_hours'' ''pm_10p0_last_24_hours'',
        clear_field ''pm_10p0_last_24_hours'',
        copy_field ''pm_10_nowcast'' ''pm_10p0_nowcast'',
        clear_field ''pm_10p0_nowcast'',
        (\<lambda>j. set_conditions0 j ''data_structure_type'' (JInt 6))]
       j"

subsection \<open>\<open>Service.populate_record\<close>\<close>

text \<open>
  \<open>get_and_update_missed_data\<close>: \<open>x[key]\<close> when \<open>key in x\<close>, otherwise the key is
  noted as missed and the field is \<open>None\<close>.  \<open>lookups\<close> makes the calls for a list of
  keys in order.
\<close>

definition get_and_update_missed_data :: "json \<Rightarrow> string \<Rightarrow> py_error + json option" where
  "get_and_update_missed_data x key =
     and_then (py_contains key x) (\<lambda>b.
       if b then and_then (py_getitem x key) (\<lambda>v. Inr (Some v)) else Inr None)"

fun lookups :: "json \<Rightarrow> string list \<Rightarrow> py_error + (string \<times> json option) list" where
  "lookups x [] = Inr []"
| "lookups x (k # ks) =
     and_then (get_and_update_missed_data x k) (\<lambda>v.
     and_then (lookups x ks) (\<lambda>vs. Inr ((k, v) # vs)))"

text \<open>
  The keys in the order in which \<open>populate_record\<close> asks for them: three of
  \<open>j['data']\<close>, then those of \<open>j['data']['conditions'][0]\<close>.  The three \<open>*_last\<close>
  counts are asked for twice (once for the unused entries \<open>pm1_0\<close>, \<open>pm2_5\<close>,
  \<open>pm10_0\<close>).
\<close>

definition data_keys :: "string list" where
  "data_keys = [''did'', ''name'', ''ts'']"

definition conditions_keys :: "string list" where
  "conditions_keys =
     [''lsid'', ''data_structure_type'', ''last_report_time'',
      ''temp'', ''hum'', ''dew_point'', ''wet_bulb'', ''heat_index'',
      ''pct_pm_data_last_1_hour'', ''pct_pm_data_last_3_hours'',
      ''pct_pm_data_nowcast'', ''pct_pm_data_last_24_hours'',
      ''pm_1_last'', ''pm_2p5_last'', ''pm_10_last'',
      ''pm_1'', ''pm_1_last'',
      ''pm_2p5_last'', ''pm_2p5'', ''pm_2p5_last_1_hour'', ''pm_2p5_last_3_hours'',
      ''pm_2p5_last_24_hours'', ''pm_2p5_nowcast'',
      ''pm_10_last'', ''pm_10'', ''pm_10_last_1_hour'', ''pm_10_last_3_hours'',
      ''pm_10_last_24_hours'', ''pm_10_nowcast'']"

text \<open>
  A looked-up value as a field of its declared type.  \<open>None\<close> and a missed key give
  \<open>None\<close>; \<open>True\<close> and \<open>False\<close> are the integers 1 and 0; an integer where a float is
  declared stands for the same number.
\<close>

definition str_field :: "json option \<Rightarrow> string option" where
  "str_field v = (case v of Some (JStr s) \<Rightarrow> Some s | _ \<Rightarrow> None)"

definition int_field :: "json option \<Rightarrow> int option" where
  "int_field v =
     (case v of
        Some (JInt n) \<Rightarrow> Some n
      | Some (JBool b) \<Rightarrow> Some (if b then 1 else 0)
      | _ \<Rightarrow> None)"

definition float_field :: "json option \<Rightarrow> rat option" where
  "float_field v = (case v of Some x \<Rightarrow> py_number x | None \<Rightarrow> None)"

definition absent :: "json option \<Rightarrow> bool" where
  "absent v \<longleftrightarrow> v = None \<or> v = Some JNull"

definition str_typed :: "json option \<Rightarrow> bool" where
  "str_typed v \<longleftrightarrow> absent v \<or> str_field v \<noteq> None"

definition int_typed :: "json option \<Rightarrow> bool" where
  "int_typed v \<longleftrightarrow> absent v \<or> int_field v \<noteq> None"

definition float_typed :: "json option \<Rightarrow> bool" where
  "float_typed v \<longleftrightarrow> absent v \<or> float_field v \<noteq> None"

definition int_field_names :: "string list" where
  "int_field_names =
     [''lsid'', ''data_structure_type'', ''pm_1_last'', ''pm_2p5_last'', ''pm_10_last'',
      ''last_report_time'', ''pct_pm_data_last_1_hour'', ''pct_pm_data_last_3_hours'',
      ''pct_pm_data_nowcast'', ''pct_pm_data_last_24_hours'']"

text \<open>
  The \<open>Reading\<close> built from the looked-up values \<open>d\<close> (of \<open>j['data']\<close>) and \<open>c\<close>
  (of the conditions).
\<close>

definition make_reading ::
  "(string \<Rightarrow> json option) \<Rightarrow> (string \<Rightarrow> json option) \<Rightarrow> reading_obj" where
  "make_reading d c =
     (if str_typed (d ''did'') \<and> str_typed (d ''name'') \<and> int_typed (d ''ts'')
         \<and> list_all (\<lambda>k. int_typed (c k)) int_field_names
         \<and> list_all (\<lambda>k. float_typed (c k)) (float_names @ float_or_none_names)
      then WellTyped
        \<lparr> did = str_field (d ''did''),
          name = str_field (d ''name''),
          ts = int_field (d ''ts''),
          lsid = int_field (c ''lsid''),
          data_structure_type = int_field (c ''data_structure_type''),
          temp = float_field (c ''temp''),
          hum = float_field (c ''hum''),
          dew_point = float_field (c ''dew_point''),
          wet_bulb = float_field (c ''wet_bulb''),
          heat_index = float_field (c ''heat_index''),
          pm_1_last = int_field (c ''pm_1_last''),
          pm_2p5_last = int_field (c ''pm_2p5_last''),
          pm_10_last = int_field (c ''pm_10_last''),
          pm_1 = float_field (c ''pm_1''),
          pm_2p5 = float_field (c ''pm_2p5''),
          pm_2p5_last_1_hour = float_field (c ''pm_2p5_last_1_hour''),
          pm_2p5_last_3_hours = float_field (c ''pm_2p5_last_3_hours''),
          pm_2p5_last_24_hours = float_field (c ''pm_2p5_last_24_hours''),
          pm_2p5_nowcast = float_field (c ''pm_2p5_nowcast''),
          pm_10 = float_field (c ''pm_10''),
          pm_10_last_1_hour = float_field (c ''pm_10_last_1_hour''),
          pm_10_last_3_hours = float_field (c ''pm_10_last_3_hours''),
          pm_10_last_24_hours = float_field (c ''pm_10_last_24_hours''),
          pm_10_nowcast = float_field (c ''pm_10_nowcast''),
          last_report_time = int_field (c ''last_report_time''),
          pct_pm_data_last_1_hour = int_field (c ''pct_pm_data_last_1_hour''),
          pct_pm_data_last_3_hours = int_field (c ''pct_pm_data_last_3_hours''),
          pct_pm_data_nowcast = int_field (c ''pct_pm_data_nowcast''),
          pct_pm_data_last_24_hours = int_field (c ''pct_pm_data_last_24_hours'') \<rparr>
      else IllTyped)"

text \<open>
  \<open>populate_record(ts, j)\<close> returns the \<open>Reading\<close>; the list of missed keys is what it
  logs.  Its first parameter is not used by the source.
\<close>

definition join_option :: "'a option option \<Rightarrow> 'a option" where
  "join_option v = (case v of Some x \<Rightarrow> x | None \<Rightarrow> None)"

definition populate_record :: "json \<Rightarrow> py_error + (reading_obj \<times> string list)" where
  "populate_record j =
     and_then (py_getitem j ''data'') (\<lambda>d.
     and_then (lookups d data_keys) (\<lambda>dv.
     and_then (conditions0 j) (\<lambda>c.
     and_then (lookups c conditions_keys) (\<lambda>cv.
       Inr (make_reading (\<lambda>k. join_option (map_of dv k)) (\<lambda>k. join_option (map_of cv k)),
            map fst (filter (\<lambda>(k, v). v = None) (dv @ cv)))))))"

subsection \<open>\<open>Service.collect_data\<close>, from the decoded response on\<close>

text \<open>
  What \<open>collect_data\<close> logs at level \<open>info\<close> (the debug messages are left out): the
  device's error with its code and message; the payload that is not sane; the report time
  that must be a time since boot; the stale reading with its age; the exception caught by
  the \<open>try\<close> block; the exception caught inside the conversion; the missed fields.
\<close>

datatype log_entry =
    Log_device_error json json
  | Log_not_sane sane_msg
  | Log_time_since_boot json
  | Log_stale rat
  | Log_attempt_failed py_error
  | Log_convert_exception py_error
  | Log_missed "string list"

text \<open>
  The \<open>try\<close> block (lines 403 to 452), for a response \<open>r\<close> that is true and whose
  \<open>r.json()\<close> is \<open>j\<close>; \<open>now\<close> is \<open>time.time()\<close>.  The result is what was logged, and
  either the exception raised inside the block or the value of \<open>j\<close> at its end
  (\<open>None\<close> when the reading is discarded).  \<open>'error' in j and j['error'] is not None\<close>
  reads \<open>j['error']\<close> only when the key is there; the \<open>%d\<close> of the error's log line
  raises \<open>TypeError\<close> for a code that is not a number.
\<close>

definition device_error :: "json \<Rightarrow> py_error + json" where
  "device_error j =
     and_then (py_contains ''error'' j) (\<lambda>b.
       if b then py_getitem j ''error'' else Inr JNull)"

definition convert_if_type_5 :: "json \<Rightarrow> py_error + (json \<times> log_entry list)" where
  "convert_if_type_5 j =
     and_then (conditions0 j) (\<lambda>c.
     and_then (py_getitem c ''data_structure_type'') (\<lambda>t.
       if py_eq_int t 5 then
         (case convert_data_structure_type_5_to_6 j of
            (j', None) \<Rightarrow> Inr (j', [])
          | (j', Some e) \<Rightarrow> Inr (j', [Log_convert_exception e]))
       else Inr (j, [])))"

definition check_age :: "rat \<Rightarrow> json \<Rightarrow> log_entry list \<times> (py_error + json option)" where
  "check_age now j =
     (case and_then (conditions0 j) (\<lambda>c. py_getitem c ''last_report_time'') of
        Inl e \<Rightarrow> ([], Inl e)
      | Inr time_of_reading \<Rightarrow>
          (case py_number time_of_reading of
             None \<Rightarrow> ([], Inl TypeError)
           | Some t \<Rightarrow>
               let age_of_reading = now - t in
               if age_of_reading > 60 then
                 (case and_then (conditions0 j) (\<lambda>c. py_getitem c ''pm_1'') of
                    Inl e \<Rightarrow> ([], Inl e)
                  | Inr p \<Rightarrow>
                      if p = JNull then ([Log_time_since_boot time_of_reading], Inr None)
                      else ([Log_stale age_of_reading], Inr None))
               else ([], Inr (Some j))))"

definition collect_try :: "rat \<Rightarrow> json \<Rightarrow> log_entry list \<times> (py_error + json option)" where
  "collect_try now j =
     (case device_error j of
        Inl e \<Rightarrow> ([], Inl e)
      | Inr err \<Rightarrow>
          if err \<noteq> JNull then
            (case and_then (py_getitem err ''code'') (\<lambda>code.
                  and_then (py_getitem err ''message'') (\<lambda>message.
                    if py_number code = None then Inl TypeError else Inr (code, message))) of
               Inl e \<Rightarrow> ([], Inl e)
             | Inr (code, message) \<Rightarrow> ([Log_device_error code message], Inr None))
          else
            (case convert_if_type_5 j of
               Inl e \<Rightarrow> ([], Inl e)
             | Inr (j1, logs1) \<Rightarrow>
                 (case is_sane j1 of
                    Inl e \<Rightarrow> (logs1, Inl e)
                  | Inr (sane, msg) \<Rightarrow>
                      if \<not> sane then (logs1 @ [Log_not_sane msg], Inr None)
                      else
                        (case check_age now j1 of
                           (logs2, res) \<Rightarrow> (logs1 @ logs2, res)))))"

text \<open>
  \<open>collect_data\<close> from the \<open>try\<close> block on: an exception of the block is caught and
  logged and the result is \<open>None\<close>; a discarded reading gives \<open>None\<close>; otherwise
  \<open>populate_record\<close> runs outside the block, so that an exception of it would reach the
  caller.  The result is the log together with either the exception that reaches the caller
  or the returned value, \<open>None\<close> being the specification's \<open>NoReading\<close>.
\<close>

definition collect_data ::
  "rat \<Rightarrow> json \<Rightarrow> log_entry list \<times> (py_error + reading_obj option)" where
  "collect_data now j =
     (case collect_try now j of
        (logs, Inl e) \<Rightarrow> (logs @ [Log_attempt_failed e], Inr None)
      | (logs, Inr None) \<Rightarrow> (logs, Inr None)
      | (logs, Inr (Some j1)) \<Rightarrow>
          (case populate_record j1 of
             Inl e \<Rightarrow> (logs, Inl e)
           | Inr (r, missed) \<Rightarrow>
               (logs @ (if missed = [] then [] else [Log_missed missed]), Inr (Some r))))"

text \<open>
  For the legacy payloads: the five canonical names that the conversion writes, and the
  type checks of \<open>is_sane\<close> on the conditions' fields other than these five and the
  structure type.
\<close>

definition pm_10_names :: "string list" where
  "pm_10_names =
     [''pm_10'', ''pm_10_last_1_hour'', ''pm_10_last_3_hours'',
      ''pm_10_last_24_hours'', ''pm_10_nowcast'']"

definition other_fields_sane :: "json \<Rightarrow> bool" where
  "other_fields_sane c \<longleftrightarrow>
     list_all (\<lambda>n. is_type c T_int n True) int_or_none_names
     \<and> is_type c T_int ''lsid'' True
     \<and> list_all (\<lambda>n. is_type c T_float n False) float_names
     \<and> list_all (\<lambda>n. is_type c T_float n True)
          (filter (\<lambda>n. n \<notin> set pm_10_names) float_or_none_names)"

text \<open>
  A payload given by its parts: the top-level dictionary \<open>outer\<close>, the dictionary
  \<open>dd\<close> of \<open>data\<close>, and the list of conditions with the dictionary \<open>c\<close> first.
\<close>

definition payload_with ::
  "(string \<times> json) list \<Rightarrow> (string \<times> json) list \<Rightarrow> json list \<Rightarrow> (string \<times> json) list
     \<Rightarrow> json" where
  "payload_with outer dd rest c =
     JDict (AList.update ''data''
       (JDict (AList.update ''conditions'' (JList (JDict c # rest)) dd)) outer)"

text \<open>
  The example payload quoted in the source (line 82), as a function of its time stamp, of
  its structure type, of the first entries of its conditions (the \<open>pm_10\<close> group, and
  entries that take precedence over the fixed ones) and of its \<open>error\<close> entry.
\<close>

definition other_conditions :: "(string \<times> json) list" where
  "other_conditions =
     [(''temp'', JFloat (741 / 10)), (''hum'', JFloat (628 / 10)),
      (''dew_point'', JFloat (606 / 10)), (''wet_bulb'', JFloat (642 / 10)),
      (''heat_index'', JFloat (747 / 10)),
      (''pm_1_last'', JInt 11), (''pm_2p5_last'', JInt 14), (''pm_10_last'', JInt 17),
      (''pm_1'', JFloat (1168 / 100)), (''pm_2p5'', JFloat (1555 / 100)),
      (''pm_2p5_last_1_hour'', JFloat (1935 / 100)),
      (''pm_2p5_last_3_hours'', JFloat (2054 / 100)),
      (''pm_2p5_last_24_hours'', JFloat (1859 / 100)),
      (''pm_2p5_nowcast'', JFloat (2125 / 100)),
      (''pct_pm_data_last_1_hour'', JInt 100), (''pct_pm_data_last_3_hours'', JInt 100),
      (''pct_pm_data_nowcast'', JInt 100), (''pct_pm_data_last_24_hours'', JInt 100)]"

definition pm_10_group :: "(string \<times> json) list" where
  "pm_10_group =
     [(''pm_10'', JFloat (1728 / 100)), (''pm_10_last_1_hour'', JFloat (2330 / 100)),
      (''pm_10_last_3_hours'', JFloat (2464 / 100)),
      (''pm_10_last_24_hours'', JFloat (2271 / 100)),
      (''pm_10_nowcast'', JFloat (2560 / 100))]"

definition pm_10p0_group :: "(string \<times> json) list" where
  "pm_10p0_group =
     [(''pm_10p0'', JFloat (1728 / 100)), (''pm_10p0_last_1_hour'', JFloat (2330 / 100)),
      (''pm_10p0_last_3_hours'', JFloat (2464 / 100)),
      (''pm_10p0_last_24_hours'', JFloat (2271 / 100)),
      (''pm_10p0_nowcast'', JFloat (2560 / 100))]"

definition example_payload :: "int \<Rightarrow> int \<Rightarrow> (string \<times> json) list \<Rightarrow> json \<Rightarrow> json" where
  "example_payload t structure_type first_entries err =
     JDict
       [(''data'', JDict
           [(''did'', JStr ''001D0A100214''), (''name'', JStr ''paloaltoweather.com''),
            (''ts'', JInt t),
            (''conditions'', JList
               [JDict (first_entries @
                       [(''lsid'', JInt 347825), (''data_structure_type'', JInt structure_type),
                        (''last_report_time'', JInt t)] @ other_conditions)])]),
        (''error'', err)]"

section \<open>Properties of the scheduler\<close>

lemma floor_rat_numeral_div [simp]:
  "\<lfloor>numeral a / numeral b :: rat\<rfloor> = numeral a div numeral b"
  by (metis floor_divide_of_int_eq of_int_numeral)

lemma floor_rat_neg_numeral_div [simp]:
  "\<lfloor>- numeral a / numeral b :: rat\<rfloor> = - numeral a div numeral b"
  by (metis floor_divide_of_int_eq of_int_numeral of_int_minus)

lemma ceiling_rat_neg_numeral_div [simp]:
  "\<lceil>- numeral a / numeral b :: rat\<rceil> = - (numeral a div numeral b)"
  by (simp add: ceiling_def)






section \<open>Properties of the start-up checks\<close>

text \<open>
  C9 (as stated in the specification).  An archive interval of 65 with a poll interval of
  5 is the specification's example of a violation, but 65 is a multiple of 5: \<open>start\<close>
  accepts this configuration, constructs the \<open>Service\<close> and enters the loop.
\<close>

theorem start_accepts_archive_65_poll_5:
  "start False False (Some ''airlink'') 80 15 5 65 (Some ''/var/lib/airlink.sdb'')
     = EnteredLoop (Service_init ''airlink'' 80 15)"
  by (simp add: start_def py_not_def)

text \<open>
  C9 (amended).  When the configured archive interval is not an exact multiple of the
  configured poll interval, \<open>start\<close> never constructs the \<open>Service\<close> and never enters
  the polling loop; in service mode (neither test nor dump, host name and database file
  given) it ends in the fatal usage error of that check, or, for a poll interval of zero,
  in the \<open>ZeroDivisionError\<close> of the check itself.  The check is made by \<open>start\<close>
  before the \<open>Service\<close> is constructed.
\<close>

theorem start_rejects_non_multiple:
  assumes "arcint mod poll \<noteq> 0"
  shows "(\<forall>svc. start tst dmp h p t poll arcint f \<noteq> EnteredLoop svc)
    \<and> (\<not> tst \<and> \<not> dmp \<and> \<not> py_not h \<and> \<not> py_not f \<longrightarrow>
         start tst dmp h p t poll arcint f =
           (if poll = 0 then Uncaught ZeroDivisionError
            else ParserError ''archive-interval-secs must be a multiple of poll-frequency-secs''))"
  using assms by (simp add: start_def)

theorem start_rejects_non_multiple_witness:
  "(\<forall>svc. start False False (Some ''airlink'') 80 15 5 62 (Some ''/var/lib/airlink.sdb'')
        \<noteq> EnteredLoop svc)
   \<and> start False False (Some ''airlink'') 80 15 5 62 (Some ''/var/lib/airlink.sdb'')
       = ParserError ''archive-interval-secs must be a multiple of poll-frequency-secs''"
proof -
  have "(62::int) mod 5 \<noteq> 0" by simp
  from start_rejects_non_multiple [OF this, of False False "Some ''airlink''" 80 15
      "Some ''/var/lib/airlink.sdb''"]
  show ?thesis by (simp add: py_not_def)
qed

section \<open>Properties of the query server's parser\<close>

lemma py_split_notin: "c \<notin> set a \<Longrightarrow> py_split c a = [a]"
  by (induction a) auto

lemma py_split_append: "c \<notin> set a \<Longrightarrow> py_split c (a @ c # b) = a # py_split c b"
  by (induction a) auto

lemma dropWhile_keeps: "c \<in> set s \<Longrightarrow> \<not> P c \<Longrightarrow> c \<in> set (dropWhile P s)"
  by (induction s) auto

lemma py_strip_keeps: "c \<in> set s \<Longrightarrow> \<not> py_isspace c \<Longrightarrow> c \<in> set (py_strip s)"
  by (simp add: py_strip_def dropWhile_keeps)

lemma int_digits_chars:
  "int_digits acc s = Some n \<Longrightarrow> c \<in> set s \<Longrightarrow> py_isdigit c \<or> c = CHR ''_''"
  by (induction acc s rule: int_digits.induct) (auto split: if_splits list.splits)

lemma int_unsigned_chars:
  "int_unsigned s = Some n \<Longrightarrow> c \<in> set s \<Longrightarrow> py_isdigit c \<or> c = CHR ''_''"
  by (auto simp: int_unsigned_def split: list.splits if_splits dest: int_digits_chars)

lemma py_int_chars:
  assumes "py_int s = Some n" and "c \<in> set (py_strip s)"
  shows "py_isdigit c \<or> c = CHR ''_'' \<or> c = CHR ''-'' \<or> c = CHR ''+''"
  using assms
  by (auto simp: py_int_def split: list.splits if_splits dest: int_unsigned_chars)

lemma py_int_ampersand: "CHR ''&'' \<in> set s \<Longrightarrow> py_int s = None"
proof (rule ccontr)
  assume a: "CHR ''&'' \<in> set s" and "py_int s \<noteq> None"
  then obtain n where n: "py_int s = Some n" by auto
  have "CHR ''&'' \<in> set (py_strip s)"
    using a by (rule py_strip_keeps) (simp add: py_isspace_def)
  from py_int_chars [OF n this] show False by (simp add: py_isdigit_def)
qed

lemma amp_joined_Cons: "\<exists>t. amp_joined ((k, v) # ps) = k @ ''='' @ v @ t"
  by (cases ps) auto

lemma amp_joined_plain:
  "list_all (\<lambda>(k, v). plain_word k \<and> plain_word v) ps \<Longrightarrow> c \<in> set '',? '' \<Longrightarrow>
     c \<notin> set (amp_joined ps)"
  by (induction ps rule: amp_joined.induct) (auto simp: plain_word_def)

text \<open>
  C10.  Take a request line \<open>m /fetch-archive-records?q HTTP/1.1\<close> whose query \<open>q\<close>
  consists of two or more parameters \<open>key=value\<close> joined with \<open>&\<close> (keys and values
  without comma, \<open>=\<close>, \<open>?\<close>, \<open>&\<close> and space, the first key not empty).  Then
  \<open>parse_args\<close> yields a single pair, the first key with the text up to the second
  \<open>=\<close> as its value; \<open>int\<close> fails on that value; and \<open>parse_requestline\<close> returns
  an \<open>ERROR\<close> request with no \<open>since_ts\<close>: with the integer message for \<open>since_ts\<close>
  when that is the first key, and with the message that \<open>since_ts\<close> is required
  otherwise.
\<close>

theorem ampersand_separated_parameters_are_an_error:
  assumes ps: "list_all (\<lambda>(k, v). plain_word k \<and> plain_word v) ((k1, v1) # (k2, v2) # ps)"
    and k1: "k1 \<noteq> []"
    and m: "CHR '' '' \<notin> set m"
  shows "parse_args (amp_joined ((k1, v1) # (k2, v2) # ps)) = [k1 \<mapsto> v1 @ ''&'' @ k2]
    \<and> py_int (v1 @ ''&'' @ k2) = None
    \<and> (\<exists>r. parse_requestline
              (m @ '' /fetch-archive-records?'' @ amp_joined ((k1, v1) # (k2, v2) # ps)
                 @ '' HTTP/1.1'') = Inr r
          \<and> request_type r = ERROR \<and> since_ts r = None
          \<and> error r = Some
               (if k1 = ''since_ts''
                then ''The since_ts argument must be an integer, found: '' @ [CHR 0x27]
                       @ v1 @ ''&'' @ k2 @ [CHR 0x27] @ ''.''
                else ''fetch-archive-records requires since_ts argument''))"
proof -
  define q where "q = amp_joined ((k1, v1) # (k2, v2) # ps)"
  define req where "req = ''/fetch-archive-records?'' @ q"
  obtain t where t: "amp_joined ((k2, v2) # ps) = k2 @ ''='' @ v2 @ t"
    using amp_joined_Cons by blast
  have q: "q = k1 @ CHR ''='' # (v1 @ ''&'' @ k2) @ CHR ''='' # (v2 @ t)"
    by (simp add: q_def t)
  have w: "CHR ''='' \<notin> set k1" "CHR ''='' \<notin> set (v1 @ ''&'' @ k2)"
    using ps by (auto simp: plain_word_def)
  have nocomma: "CHR '','' \<notin> set q" and noq: "CHR ''?'' \<notin> set q"
    and nosp: "CHR '' '' \<notin> set q"
    unfolding q_def using amp_joined_plain [OF ps] by simp_all
  have eqin: "CHR ''='' \<in> set q" by (simp add: q)
  have kv: "py_split CHR ''='' q = k1 # (v1 @ ''&'' @ k2) # py_split CHR ''='' (v2 @ t)"
    unfolding q by (simp only: py_split_append [OF w(1)] py_split_append [OF w(2)])
  have args: "parse_args q = [k1 \<mapsto> v1 @ ''&'' @ k2]"
    unfolding parse_args_def py_split_notin [OF nocomma]
    using eqin k1 by (simp add: parse_arg_def kv)
  have bad: "py_int (v1 @ ''&'' @ k2) = None"
    by (rule py_int_ampersand) simp
  then have bad': "py_int (v1 @ CHR ''&'' # k2) = None" by simp
  have line: "py_split CHR '' '' (m @ CHR '' '' # (req @ CHR '' '' # ''HTTP/1.1''))
      = [m, req, ''HTTP/1.1'']"
  proof -
    have a: "CHR '' '' \<notin> set req" using nosp by (simp add: req_def)
    have b: "CHR '' '' \<notin> set ''HTTP/1.1''" by simp
    show ?thesis
      by (simp only: py_split_append [OF m] py_split_append [OF a] py_split_notin [OF b])
  qed
  have qm: "CHR ''?'' \<in> set req" by (simp add: req_def)
  have cmd: "py_split CHR ''?'' req = [''/fetch-archive-records'', q]"
  proof -
    have c: "CHR ''?'' \<notin> set ''/fetch-archive-records''" by simp
    have "py_split CHR ''?'' (''/fetch-archive-records'' @ CHR ''?'' # q)
        = ''/fetch-archive-records'' # py_split CHR ''?'' q"
      by (simp only: py_split_append [OF c])
    then show ?thesis by (simp only: py_split_notin [OF noq]) (simp add: req_def)
  qed
  have "\<exists>r. parse_requestline (m @ CHR '' '' # (req @ CHR '' '' # ''HTTP/1.1'')) = Inr r
          \<and> request_type r = ERROR \<and> since_ts r = None
          \<and> error r = Some
               (if k1 = ''since_ts''
                then ''The since_ts argument must be an integer, found: '' @ [CHR 0x27]
                       @ v1 @ ''&'' @ k2 @ [CHR 0x27] @ ''.''
                else ''fetch-archive-records requires since_ts argument'')"
    unfolding parse_requestline_def line
    using qm by (simp add: cmd args int_argument_def bad')
  moreover have "m @ '' /fetch-archive-records?'' @ amp_joined ((k1, v1) # (k2, v2) # ps)
                 @ '' HTTP/1.1'' = m @ CHR '' '' # (req @ CHR '' '' # ''HTTP/1.1'')"
    by (simp add: req_def q_def)
  ultimately show ?thesis using args bad unfolding q_def by (simp only:)
qed

theorem ampersand_separated_parameters_are_an_error_witness:
  "parse_args ''since_ts=1&max_ts=9'' = [''since_ts'' \<mapsto> ''1&max_ts'']
    \<and> py_int ''1&max_ts'' = None
    \<and> (\<exists>r. parse_requestline ''GET /fetch-archive-records?since_ts=1&max_ts=9 HTTP/1.1'' = Inr r
          \<and> request_type r = ERROR \<and> since_ts r = None
          \<and> error r = Some
              (''The since_ts argument must be an integer, found: '' @ [CHR 0x27]
                 @ ''1&max_ts'' @ [CHR 0x27] @ ''.''))"
proof -
  have ps: "list_all (\<lambda>(k, v). plain_word k \<and> plain_word v)
      ((''since_ts'', ''1'') # (''max_ts'', ''9'') # [])"
    by (simp add: plain_word_def)
  have k1: "''since_ts'' \<noteq> []" by simp
  have m: "CHR '' '' \<notin> set ''GET''" by simp
  from ampersand_separated_parameters_are_an_error [OF ps k1 m]
  show ?thesis by simp
qed

section \<open>Properties of the sensor pipeline\<close>

lemma py_contains_dict:
  "map_of d k = Some v \<Longrightarrow> py_contains k (JDict d) = Inr True"
  by (auto simp: py_contains_def dest: map_of_SomeD intro: rev_image_eqI)

lemma py_getitem_dict:
  "py_getitem x k = Inr v \<Longrightarrow> \<exists>d. x = JDict d \<and> map_of d k = Some v"
  by (auto simp: py_getitem_def split: json.splits option.splits)

lemma device_error_present:
  assumes "py_getitem j ''error'' = Inr e"
  shows "device_error j = Inr e"
proof -
  obtain d where d: "j = JDict d" "map_of d ''error'' = Some e"
    using py_getitem_dict [OF assms] by blast
  show ?thesis
    using assms by (simp add: device_error_def and_then_def py_contains_dict [OF d(2)] d(1))
qed

text \<open>
  C6.  For every payload that is a dictionary whose \<open>error\<close> entry is not null,
  whatever that entry is, \<open>collect_data\<close> returns \<open>None\<close> to its caller and raises
  nothing: either the device's error is logged, or the exception met while reading the
  error's code and message is caught and logged.
\<close>

theorem error_payload_gives_no_reading:
  assumes "map_of d ''error'' = Some e" and "e \<noteq> JNull"
  shows "snd (collect_data now (JDict d)) = Inr None
    \<and> (\<exists>code message ex. fst (collect_data now (JDict d)) = [Log_device_error code message]
          \<or> fst (collect_data now (JDict d)) = [Log_attempt_failed ex])"
proof -
  have "py_getitem (JDict d) ''error'' = Inr e"
    using assms(1) by (simp add: py_getitem_def)
  then have "device_error (JDict d) = Inr e" by (rule device_error_present)
  then show ?thesis
    using assms(2)
    by (auto simp: collect_data_def collect_try_def split: sum.splits prod.splits)
qed

theorem error_payload_gives_no_reading_witness:
  "collect_data 1600657330 (example_payload 1600657321 6 pm_10_group (JStr ''rebooting''))
     = ([Log_attempt_failed TypeError], Inr None)
   \<and> snd (collect_data 1600657330
        (example_payload 1600657321 6 pm_10_group
           (JDict [(''code'', JInt 409), (''message'', JStr ''busy'')]))) = Inr None"
proof -
  have a: "map_of [(''data'', x), (''error'', y)] ''error'' = Some y" for x y :: json
    by simp
  have b: "JDict [(''code'', JInt 409), (''message'', JStr ''busy'')] \<noteq> JNull" by simp
  have "snd (collect_data 1600657330
        (example_payload 1600657321 6 pm_10_group
           (JDict [(''code'', JInt 409), (''message'', JStr ''busy'')]))) = Inr None"
    unfolding example_payload_def
    using error_payload_gives_no_reading [OF a b] by blast
  moreover have "collect_data 1600657330
      (example_payload 1600657321 6 pm_10_group (JStr ''rebooting''))
     = ([Log_attempt_failed TypeError], Inr None)"
    by (simp add: collect_data_def collect_try_def device_error_def example_payload_def
        py_contains_def py_getitem_def and_then_def)
  ultimately show ?thesis by blast
qed







subsection \<open>The upgrade of legacy payloads\<close>

lemma is_type_dict:
  "is_type (JDict d) t k b =
     (case map_of d k of
        None \<Rightarrow> False
      | Some v \<Rightarrow> (v = JNull \<and> b) \<or> isinstance v t)"
  by (auto simp: is_type_def py_getitem_def split: option.splits)

lemma is_type_update:
  "is_type (JDict (AList.update k v d)) t n b =
     (if n = k then (v = JNull \<and> b) \<or> isinstance v t else is_type (JDict d) t n b)"
  by (simp add: is_type_dict update_conv')

lemma is_typeD: "is_type x t k b \<Longrightarrow> \<exists>d. x = JDict d"
  by (cases x) (simp_all add: is_type_def py_getitem_def)

lemma conditions0_payload_with [simp]:
  "conditions0 (payload_with outer dd rest c) = Inr (JDict c)"
  by (simp add: conditions0_def payload_with_def and_then_def py_getitem_def py_getitem0_def
      update_conv')

lemma getitem_data_payload_with [simp]:
  "py_getitem (payload_with outer dd rest c) ''data''
     = Inr (JDict (AList.update ''conditions'' (JList (JDict c # rest)) dd))"
  by (simp add: payload_with_def py_getitem_def update_conv')

lemma set_conditions0_payload_with [simp]:
  "set_conditions0 (payload_with outer dd rest c) k v
     = Inr (payload_with outer dd rest (AList.update k v c))"
  by (simp add: set_conditions0_def payload_with_def and_then_def py_getitem_def py_getitem0_def
      py_setitem_def update_conv')

lemma copy_field_payload_with [simp]:
  "copy_field new old (payload_with outer dd rest c) =
     (case map_of c old of
        None \<Rightarrow> Inl KeyError
      | Some v \<Rightarrow> Inr (payload_with outer dd rest (AList.update new v c)))"
  by (simp add: copy_field_def and_then_def py_getitem_def split: option.splits)

lemma clear_field_payload_with [simp]:
  "clear_field old (payload_with outer dd rest c)
     = Inr (payload_with outer dd rest (AList.update old JNull c))"
  by (simp add: clear_field_def)

lemma payload_with_eq:
  assumes "map_of outer ''data'' = Some (JDict dd)"
    and "map_of dd ''conditions'' = Some (JList (JDict c # rest))"
  shows "JDict outer = payload_with outer dd rest c"
  using assms by (simp add: payload_with_def update_triv)

lemma is_sane_payload_with:
  assumes "map_of outer ''error'' = Some JNull"
    and "is_type (JDict dd) T_str ''name'' False"
    and "is_type (JDict dd) T_int ''ts'' False"
  shows "is_sane (payload_with outer dd rest c) =
     (if \<not> is_type (JDict c) T_int ''data_structure_type'' False then
        Inr (False, Msg_field ''data_structure_type'')
      else if \<not> py_eq_int (the (map_of c ''data_structure_type'')) 6 then
        Inr (False, Msg_structure_type)
      else Inr (conditions_sane (JDict c)))"
proof -
  have e: "py_getitem (payload_with outer dd rest c) ''error'' = Inr JNull"
    using assms(1) by (simp add: payload_with_def py_getitem_def update_conv')
  have d: "is_type (payload_with outer dd rest c) T_dict ''data'' False"
    by (simp add: is_type_def isinstance_def)
  let ?dd = "AList.update ''conditions'' (JList (JDict c # rest)) dd"
  have n: "is_type (JDict ?dd) T_str ''name'' False" "is_type (JDict ?dd) T_int ''ts'' False"
    "is_type (JDict ?dd) T_list ''conditions'' False"
    using assms(2,3) by (simp_all add: is_type_update isinstance_def)
  have cs: "py_getitem (JDict ?dd) ''conditions'' = Inr (JList (JDict c # rest))"
    by (simp add: py_getitem_def update_conv')
  have c0: "py_getitem0 (JList (JDict c # rest)) = Inr (JDict c)"
    by (simp add: py_getitem0_def)
  have t: "is_type (JDict c) T_int ''data_structure_type'' False \<Longrightarrow>
      py_getitem (JDict c) ''data_structure_type''
        = Inr (the (map_of c ''data_structure_type''))"
    by (auto simp: is_type_dict py_getitem_def split: option.splits)
  show ?thesis
    unfolding is_sane_def
    by (simp add: e d n cs c0 t and_then_def)
qed

lemma is_sane_shape:
  assumes "is_sane j = Inr (b, m)" and "b \<or> m = Msg_structure_type"
  shows "\<exists>outer dd c rest. j = JDict outer \<and> map_of outer ''error'' = Some JNull
    \<and> map_of outer ''data'' = Some (JDict dd)
    \<and> is_type (JDict dd) T_str ''name'' False \<and> is_type (JDict dd) T_int ''ts'' False
    \<and> map_of dd ''conditions'' = Some (JList (c # rest))"
proof -
  from assms obtain outer where outer: "j = JDict outer" "map_of outer ''error'' = Some JNull"
    by (auto simp: is_sane_def and_then_def split: sum.splits if_splits dest!: py_getitem_dict)
  from assms outer have "is_type (JDict outer) T_dict ''data'' False"
    by (auto simp: is_sane_def and_then_def py_getitem_def split: if_splits)
  then obtain dd where dd: "map_of outer ''data'' = Some (JDict dd)"
    by (auto simp: is_type_dict isinstance_def split: option.splits json.splits)
  from assms outer dd have ty: "is_type (JDict dd) T_str ''name'' False"
    "is_type (JDict dd) T_int ''ts'' False" "is_type (JDict dd) T_list ''conditions'' False"
    by (auto simp: is_sane_def and_then_def py_getitem_def split: if_splits)
  then obtain cs where cs: "map_of dd ''conditions'' = Some (JList cs)"
    by (auto simp: is_type_dict isinstance_def split: option.splits json.splits)
  from assms outer dd ty cs have "cs \<noteq> []"
    by (auto simp: is_sane_def and_then_def py_getitem_def split: if_splits)
  then obtain c rest where "cs = c # rest" by (cases cs) auto
  with outer dd ty cs show ?thesis by blast
qed

lemma lookups_dict:
  "lookups (JDict d) ks = Inr (map (\<lambda>k. (k, map_of d k)) ks)"
proof (induction ks)
  case Nil
  show ?case by simp
next
  case (Cons k ks)
  have "get_and_update_missed_data (JDict d) k = Inr (map_of d k)"
  proof (cases "map_of d k")
    case None
    then have "k \<notin> fst ` set d" by (simp add: map_of_eq_None_iff)
    then show ?thesis
      by (simp add: get_and_update_missed_data_def and_then_def py_contains_def None)
  next
    case (Some v)
    then have "k \<in> fst ` set d" by (auto dest: map_of_SomeD intro: rev_image_eqI)
    then show ?thesis
      by (simp add: get_and_update_missed_data_def and_then_def py_contains_def
          py_getitem_def Some)
  qed
  then show ?case by (simp add: Cons and_then_def)
qed

lemma map_of_lookups:
  "join_option (map_of (map (\<lambda>k. (k, f k)) ks) k) = (if k \<in> set ks then f k else None)"
  by (induction ks) (auto simp: join_option_def)

lemma populate_record_payload_with:
  "populate_record (payload_with outer dd rest c) =
     Inr (make_reading
            (\<lambda>k. if k \<in> set data_keys
                  then map_of (AList.update ''conditions'' (JList (JDict c # rest)) dd) k
                  else None)
            (\<lambda>k. if k \<in> set conditions_keys then map_of c k else None),
          map fst (filter (\<lambda>(k, v). v = None)
            (map (\<lambda>k. (k, map_of (AList.update ''conditions'' (JList (JDict c # rest)) dd) k))
               data_keys
             @ map (\<lambda>k. (k, map_of c k)) conditions_keys)))"
  by (simp add: populate_record_def and_then_def lookups_dict map_of_lookups)

lemma str_typed_is_type:
  "is_type (JDict d) T_str k False \<Longrightarrow> str_typed (map_of d k)"
  by (auto simp: is_type_dict str_typed_def str_field_def isinstance_def
      split: option.splits json.splits)

lemma int_typed_is_type:
  "is_type (JDict d) T_int k b \<Longrightarrow> int_typed (map_of d k)"
  by (auto simp: is_type_dict int_typed_def int_field_def isinstance_def absent_def
      split: option.splits json.splits)

lemma float_typed_is_type:
  "is_type (JDict d) T_float k b \<Longrightarrow> float_typed (map_of d k)"
  by (auto simp: is_type_dict float_typed_def float_field_def isinstance_def absent_def
      py_number_def split: option.splits json.splits)

text \<open>
  C8.  Let a payload be rejected by \<open>is_sane\<close> for its structure type only (everything
  that \<open>is_sane\<close> checks before the structure type passes), let that type be 5, let
  the conditions carry the five legacy \<open>pm_10p0*\<close> fields, each a float or null, let the
  other fields that \<open>is_sane\<close> checks on the conditions pass their type checks, and let
  \<open>did\<close> be a string, null or missing.  Then the conversion raises nothing, writes the
  legacy values under the canonical \<open>pm_10*\<close> names and sets the structure type to 6;
  the converted payload passes \<open>is_sane\<close>; and the \<open>Reading\<close> made from it has
  structure type 6 and the legacy values in its \<open>pm_10\<close> fields.
\<close>

theorem legacy_payload_is_upgraded:
  assumes rejected: "is_sane j = Inr (False, Msg_structure_type)"
    and data: "py_getitem j ''data'' = Inr (JDict dd)"
    and did: "str_typed (map_of dd ''did'')"
    and c: "conditions0 j = Inr (JDict c)"
    and five: "map_of c ''data_structure_type'' = Some (JInt 5)"
    and legacy: "map_of c ''pm_10p0'' = Some v1" "map_of c ''pm_10p0_last_1_hour'' = Some v2"
      "map_of c ''pm_10p0_last_3_hours'' = Some v3"
      "map_of c ''pm_10p0_last_24_hours'' = Some v4" "map_of c ''pm_10p0_nowcast'' = Some v5"
    and floats: "list_all (\<lambda>v. v = JNull \<or> isinstance v T_float) [v1, v2, v3, v4, v5]"
    and others: "other_fields_sane (JDict c)"
  shows "\<exists>j' c' r missed.
      convert_data_structure_type_5_to_6 j = (j', None)
    \<and> convert_if_type_5 j = Inr (j', [])
    \<and> conditions0 j' = Inr (JDict c')
    \<and> map_of c' ''data_structure_type'' = Some (JInt 6)
    \<and> map (map_of c') pm_10_names = [Some v1, Some v2, Some v3, Some v4, Some v5]
    \<and> is_sane j' = Inr (True, Msg_empty)
    \<and> populate_record j' = Inr (WellTyped r, missed)
    \<and> data_structure_type r = Some 6
    \<and> [pm_10 r, pm_10_last_1_hour r, pm_10_last_3_hours r, pm_10_last_24_hours r,
        pm_10_nowcast r] = map (\<lambda>v. float_field (Some v)) [v1, v2, v3, v4, v5]"
proof -
  obtain outer dd0 c0 rest where shape: "j = JDict outer" "map_of outer ''error'' = Some JNull"
    "map_of outer ''data'' = Some (JDict dd0)"
    "is_type (JDict dd0) T_str ''name'' False" "is_type (JDict dd0) T_int ''ts'' False"
    "map_of dd0 ''conditions'' = Some (JList (c0 # rest))"
    using is_sane_shape [OF rejected] by blast
  have dd0: "dd0 = dd" using data shape(1,3) by (simp add: py_getitem_def)
  have c0: "c0 = JDict c"
    using c shape(1,3,6)
    by (simp add: conditions0_def and_then_def py_getitem_def py_getitem0_def)
  have j: "j = payload_with outer dd rest c"
    unfolding shape(1) using shape(3,6) unfolding dd0 c0 by (rule payload_with_eq)
  define c' where "c' =
    AList.update ''data_structure_type'' (JInt 6)
     (AList.update ''pm_10p0_nowcast'' JNull (AList.update ''pm_10_nowcast'' v5
     (AList.update ''pm_10p0_last_24_hours'' JNull (AList.update ''pm_10_last_24_hours'' v4
     (AList.update ''pm_10p0_last_3_hours'' JNull (AList.update ''pm_10_last_3_hours'' v3
     (AList.update ''pm_10p0_last_1_hour'' JNull (AList.update ''pm_10_last_1_hour'' v2
     (AList.update ''pm_10p0'' JNull (AList.update ''pm_10'' v1 c))))))))))"
  define j' where "j' = payload_with outer dd rest c'"
  have conv: "convert_data_structure_type_5_to_6 j = (j', None)"
    unfolding convert_data_structure_type_5_to_6_def j j'_def c'_def
    by (simp add: legacy update_conv')
  have conv5: "convert_if_type_5 j = Inr (j', [])"
    unfolding convert_if_type_5_def conv
    by (simp add: j and_then_def py_getitem_def five py_eq_int_def py_number_def)
  have look: "map_of c' k =
     (if k = ''data_structure_type'' then Some (JInt 6)
      else if k = ''pm_10p0_nowcast'' \<or> k = ''pm_10p0_last_24_hours''
            \<or> k = ''pm_10p0_last_3_hours'' \<or> k = ''pm_10p0_last_1_hour'' \<or> k = ''pm_10p0''
      then Some JNull
      else if k = ''pm_10_nowcast'' then Some v5
      else if k = ''pm_10_last_24_hours'' then Some v4
      else if k = ''pm_10_last_3_hours'' then Some v3
      else if k = ''pm_10_last_1_hour'' then Some v2
      else if k = ''pm_10'' then Some v1
      else map_of c k)" for k
    by (simp add: c'_def update_conv')
  have ty: "is_type (JDict c') t k b =
     (case map_of c' k of None \<Rightarrow> False | Some v \<Rightarrow> (v = JNull \<and> b) \<or> isinstance v t)"
    for t k b
    by (rule is_type_dict)
  have old_ty: "is_type (JDict c) t k b \<Longrightarrow>
      (case map_of c k of None \<Rightarrow> False | Some v \<Rightarrow> (v = JNull \<and> b) \<or> isinstance v t)"
    for t k b
    by (simp add: is_type_dict)
  note o = others [unfolded other_fields_sane_def int_or_none_names_def float_names_def
      float_or_none_names_def pm_10_names_def, simplified]
  have cs1: "find (\<lambda>n. \<not> is_type (JDict c') T_int n True) int_or_none_names = None"
    using o by (simp add: int_or_none_names_def is_type_dict look)
  have cs2: "is_type (JDict c') T_int ''lsid'' True"
    using o by (simp add: is_type_dict look)
  have cs3: "find (\<lambda>n. \<not> is_type (JDict c') T_float n False) float_names = None"
    using o by (simp add: float_names_def is_type_dict look)
  have cs4: "find (\<lambda>n. \<not> is_type (JDict c') T_float n True) float_or_none_names = None"
    using o floats by (simp add: float_or_none_names_def is_type_dict look)
  have cs: "conditions_sane (JDict c') = (True, Msg_empty)"
    by (simp add: conditions_sane_def cs1 cs2 cs3 cs4)
  have sane: "is_sane j' = Inr (True, Msg_empty)"
    unfolding j'_def
    using shape(4,5) unfolding dd0
    by (simp add: is_sane_payload_with [OF shape(2)] cs ty look isinstance_def py_eq_int_def
        py_number_def)
  define D where "D = (\<lambda>k. if k \<in> set data_keys
      then map_of (AList.update ''conditions'' (JList (JDict c' # rest)) dd) k else None)"
  define C where "C = (\<lambda>k. if k \<in> set conditions_keys then map_of c' k else None)"
  have D: "D ''did'' = map_of dd ''did''" "D ''name'' = map_of dd ''name''"
    "D ''ts'' = map_of dd ''ts''"
    by (simp_all add: D_def data_keys_def update_conv')
  have s1: "str_typed (D ''did'')" "str_typed (D ''name'')" "int_typed (D ''ts'')"
    using did shape(4,5) unfolding dd0 D
    by (simp_all add: str_typed_is_type int_typed_is_type)
  have i6: "int_typed (Some (JInt 6))" by (simp add: int_typed_def int_field_def)
  have s4: "list_all (\<lambda>k. int_typed (C k)) int_field_names"
    using o
    by (simp add: int_field_names_def C_def conditions_keys_def look i6
        int_typed_is_type [where b = True])
  have fv: "float_typed (Some v)" if "v = JNull \<or> isinstance v T_float" for v
    using that
    by (auto simp: float_typed_def absent_def float_field_def isinstance_def py_number_def
        split: json.splits)
  have s5: "list_all (\<lambda>k. float_typed (C k)) float_names"
    using o
    by (simp add: float_names_def C_def conditions_keys_def look
        float_typed_is_type [where b = False])
  have s6: "list_all (\<lambda>k. float_typed (C k)) float_or_none_names"
    using o floats
    by (simp add: float_or_none_names_def C_def conditions_keys_def look fv
        float_typed_is_type [where b = True])
  have Cv: "C ''data_structure_type'' = Some (JInt 6)" "C ''pm_10'' = Some v1"
    "C ''pm_10_last_1_hour'' = Some v2" "C ''pm_10_last_3_hours'' = Some v3"
    "C ''pm_10_last_24_hours'' = Some v4" "C ''pm_10_nowcast'' = Some v5"
    by (simp_all add: C_def conditions_keys_def look)
  have cond: "str_typed (D ''did'') \<and> str_typed (D ''name'') \<and> int_typed (D ''ts'')
         \<and> list_all (\<lambda>k. int_typed (C k)) int_field_names
         \<and> list_all (\<lambda>k. float_typed (C k)) (float_names @ float_or_none_names)"
    using s1 s4 s5 s6 by simp
  define r where "r =
        \<lparr> did = str_field (D ''did''),
          name = str_field (D ''name''),
          ts = int_field (D ''ts''),
          lsid = int_field (C ''lsid''),
          data_structure_type = int_field (C ''data_structure_type''),
          temp = float_field (C ''temp''),
          hum = float_field (C ''hum''),
          dew_point = float_field (C ''dew_point''),
          wet_bulb = float_field (C ''wet_bulb''),
          heat_index = float_field (C ''heat_index''),
          pm_1_last = int_field (C ''pm_1_last''),
          pm_2p5_last = int_field (C ''pm_2p5_last''),
          pm_10_last = int_field (C ''pm_10_last''),
          pm_1 = float_field (C ''pm_1''),
          pm_2p5 = float_field (C ''pm_2p5''),
          pm_2p5_last_1_hour = float_field (C ''pm_2p5_last_1_hour''),
          pm_2p5_last_3_hours = float_field (C ''pm_2p5_last_3_hours''),
          pm_2p5_last_24_hours = float_field (C ''pm_2p5_last_24_hours''),
          pm_2p5_nowcast = float_field (C ''pm_2p5_nowcast''),
          pm_10 = float_field (C ''pm_10''),
          pm_10_last_1_hour = float_field (C ''pm_10_last_1_hour''),
          pm_10_last_3_hours = float_field (C ''pm_10_last_3_hours''),
          pm_10_last_24_hours = float_field (C ''pm_10_last_24_hours''),
          pm_10_nowcast = float_field (C ''pm_10_nowcast''),
          last_report_time = int_field (C ''last_report_time''),
          pct_pm_data_last_1_hour = int_field (C ''pct_pm_data_last_1_hour''),
          pct_pm_data_last_3_hours = int_field (C ''pct_pm_data_last_3_hours''),
          pct_pm_data_nowcast = int_field (C ''pct_pm_data_nowcast''),
          pct_pm_data_last_24_hours = int_field (C ''pct_pm_data_last_24_hours'') \<rparr>"
  have mk: "make_reading D C = WellTyped r"
    unfolding make_reading_def r_def using cond by (simp only: simp_thms if_True)
  have r6: "data_structure_type r = Some 6"
    by (simp add: r_def Cv int_field_def)
  have rv: "[pm_10 r, pm_10_last_1_hour r, pm_10_last_3_hours r, pm_10_last_24_hours r,
      pm_10_nowcast r] = map (\<lambda>v. float_field (Some v)) [v1, v2, v3, v4, v5]"
    by (simp add: r_def Cv)
  obtain missed where pop: "populate_record j' = Inr (WellTyped r, missed)"
    unfolding j'_def populate_record_payload_with D_def [symmetric] C_def [symmetric] mk
    by blast
  have f1: "conditions0 j' = Inr (JDict c')" by (simp add: j'_def)
  have f2: "map_of c' ''data_structure_type'' = Some (JInt 6)" by (simp add: look)
  have f3: "map (map_of c') pm_10_names = [Some v1, Some v2, Some v3, Some v4, Some v5]"
    by (simp add: pm_10_names_def look)
  show ?thesis
    by (intro exI conjI)
      (rule conv, rule conv5, rule f1, rule f2, rule f3, rule sane, rule pop, rule r6, rule rv)
qed

theorem legacy_payload_is_upgraded_witness:
  "\<exists>j' r missed.
      convert_if_type_5 (example_payload 1600657321 5 pm_10p0_group JNull) = Inr (j', [])
    \<and> is_sane j' = Inr (True, Msg_empty)
    \<and> populate_record j' = Inr (WellTyped r, missed)
    \<and> data_structure_type r = Some 6
    \<and> [pm_10 r, pm_10_last_1_hour r, pm_10_last_3_hours r, pm_10_last_24_hours r,
        pm_10_nowcast r]
       = [Some (1728 / 100), Some (2330 / 100), Some (2464 / 100), Some (2271 / 100),
          Some (2560 / 100)]"
proof -
  let ?j = "example_payload 1600657321 5 pm_10p0_group JNull"
  let ?c = "pm_10p0_group @
     [(''lsid'', JInt 347825), (''data_structure_type'', JInt 5),
      (''last_report_time'', JInt 1600657321)] @ other_conditions"
  let ?dd = "[(''did'', JStr ''001D0A100214''), (''name'', JStr ''paloaltoweather.com''),
      (''ts'', JInt 1600657321), (''conditions'', JList [JDict ?c])]"
  have rejected: "is_sane ?j = Inr (False, Msg_structure_type)"
    by code_simp
  have data: "py_getitem ?j ''data'' = Inr (JDict ?dd)"
    by (simp add: example_payload_def py_getitem_def)
  have did: "str_typed (map_of ?dd ''did'')"
    by (simp add: str_typed_def str_field_def)
  have c: "conditions0 ?j = Inr (JDict ?c)"
    by (simp add: example_payload_def conditions0_def and_then_def py_getitem_def
        py_getitem0_def)
  have five: "map_of ?c ''data_structure_type'' = Some (JInt 5)"
    by (simp add: pm_10p0_group_def)
  have legacy: "map_of ?c ''pm_10p0'' = Some (JFloat (1728 / 100))"
    "map_of ?c ''pm_10p0_last_1_hour'' = Some (JFloat (2330 / 100))"
    "map_of ?c ''pm_10p0_last_3_hours'' = Some (JFloat (2464 / 100))"
    "map_of ?c ''pm_10p0_last_24_hours'' = Some (JFloat (2271 / 100))"
    "map_of ?c ''pm_10p0_nowcast'' = Some (JFloat (2560 / 100))"
    by (simp_all add: pm_10p0_group_def)
  have floats: "list_all (\<lambda>v. v = JNull \<or> isinstance v T_float)
      [JFloat (1728 / 100), JFloat (2330 / 100), JFloat (2464 / 100), JFloat (2271 / 100),
       JFloat (2560 / 100)]"
    by (simp add: isinstance_def)
  have others: "other_fields_sane (JDict ?c)"
    by code_simp
  from legacy_payload_is_upgraded [OF rejected data did c five legacy floats others]
  show ?thesis
    apply (elim exE conjE)
    subgoal for j' c' r missed
      apply (rule exI [of _ j'], rule exI [of _ r], rule exI [of _ missed])
      apply (simp add: float_field_def py_number_def)
      done
    done
qed

end
